theory Spec2Isabelle
  imports Main
begin

section \<open>The serving image: the Dockerfile as data\<close>

text \<open>
  The repository's build description is a Dockerfile. It is embedded as the list of its
  instructions, in file order, and the image it produces is computed by running the
  instructions one after the other over an image configuration, the way the builder does:
  \<^item> \<^verbatim>\<open>FROM\<close> starts from the configuration of the base image;
  \<^item> \<^verbatim>\<open>LABEL k=v\<close> stores \<open>v\<close> under \<open>k\<close> in the image's labels (a later label of the
    same key replaces the earlier one);
  \<^item> \<^verbatim>\<open>ENV k=v ...\<close> stores each value in the image's environment, after replacing every
    \<^verbatim>\<open>${NAME}\<close> by the value \<open>NAME\<close> had before the instruction (nothing when unset);
  \<^item> \<^verbatim>\<open>WORKDIR\<close> sets the working directory;
  \<^item> \<^verbatim>\<open>COPY src dst\<close> adds the file \<open>dst\<close> (taken from the working directory when it is
    relative);
  \<^item> \<^verbatim>\<open>RUN\<close> runs a shell command, which may change the files of the image and nothing of
    its configuration;
  \<^item> \<^verbatim>\<open>ENTRYPOINT [...]\<close> (exec form) sets the entry point and clears the default command
    inherited from the base image.
  Comments of the Dockerfile are not instructions and are not part of the list.
\<close>

text \<open>A value of an \<^verbatim>\<open>ENV\<close> instruction: literal text and \<^verbatim>\<open>${NAME}\<close> references.\<close>

datatype piece = Lit string | Var string

datatype instruction =
    FROM string
  | LABEL string string
  | RUN string
  | ENV "(string \<times> piece list) list"
  | WORKDIR string
  | COPY string string
  | ENTRYPOINT "string list"

record image =
  labels :: "string \<rightharpoonup> string"
  environment :: "string \<rightharpoonup> string"
  workdir :: string
  entrypoint :: "string list"
  cmd :: "string list"
  files :: "string set"

text \<open>
  The Dockerfile of the repository (\<^verbatim>\<open>src/unnamed/part_000\<close>). A command continued over
  several lines with a backslash is one command; the line breaks and the indentation
  between its words are written as one space.
\<close>

definition Dockerfile :: "instruction list" where
  "Dockerfile =
    [ FROM ''ubuntu:16.04'',
      LABEL ''maintainer'' ''Giuseppe A. Porcelli'',
      LABEL ''com.amazonaws.sagemaker.capabilities.multi-models'' ''true'',
      LABEL ''com.amazonaws.sagemaker.capabilities.accept-bind-to-port'' ''true'',
      RUN ''apt-get update && apt-get -y install build-essential libatlas-dev git wget curl openjdk-8-jdk-headless'',
      RUN ''echo 'installing miniconda' && curl -LO http://repo.continuum.io/miniconda/Miniconda3-latest-Linux-x86_64.sh && bash Miniconda3-latest-Linux-x86_64.sh -bfp /miniconda3 && rm Miniconda3-latest-Linux-x86_64.sh'',
      ENV [(''PATH'', [Lit ''/miniconda3/bin:'', Var ''PATH''])],
      RUN ''conda install python=3.6 && conda update -y conda && conda install -c conda-forge pyarrow=0.14.1 && conda install -c mlio -c conda-forge mlio-py=0.1'',
      ENV [(''PYTHONDONTWRITEBYTECODE'', [Lit ''1'']),
           (''PYTHONUNBUFFERED'', [Lit ''1'']),
           (''PYTHONIOENCODING'', [Lit ''UTF-8'']),
           (''LANG'', [Lit ''C.UTF-8'']),
           (''LC_ALL'', [Lit ''C.UTF-8''])],
      RUN ''pip install --no-cache -I xgboost==0.90'',
      RUN ''pip --no-cache-dir install multi-model-server sagemaker-inference retrying'',
      WORKDIR ''/'',
      COPY ''code/multi_model_serving-1.0.0.tar.gz'' ''/multi_model_serving-1.0.0.tar.gz'',
      RUN ''pip install /multi_model_serving-1.0.0.tar.gz && rm /multi_model_serving-1.0.0.tar.gz'',
      COPY ''code/serve.py'' ''/serve.py'',
      ENTRYPOINT [''python'', ''serve.py''] ]"

subsection \<open>Building the image\<close>

text \<open>A path is absolute when it starts with a slash; a relative one is taken from \<open>wd\<close>.\<close>

fun resolve :: "string \<Rightarrow> string \<Rightarrow> string" where
  "resolve wd [] = wd"
| "resolve wd (c # p) =
     (if c = CHR ''/'' then c # p
      else if wd = [] then CHR ''/'' # c # p
      else if last wd = CHR ''/'' then wd @ c # p
      else wd @ CHR ''/'' # c # p)"

fun expand_piece :: "(string \<rightharpoonup> string) \<Rightarrow> piece \<Rightarrow> string" where
  "expand_piece e (Lit s) = s"
| "expand_piece e (Var v) = (case e v of None \<Rightarrow> [] | Some x \<Rightarrow> x)"

definition expand :: "(string \<rightharpoonup> string) \<Rightarrow> piece list \<Rightarrow> string" where
  "expand e ps = concat (map (expand_piece e) ps)"

text \<open>
  All the values of one \<^verbatim>\<open>ENV\<close> instruction are expanded in the environment the
  instruction started with.
\<close>

fun set_env :: "(string \<rightharpoonup> string) \<Rightarrow> (string \<times> piece list) list
    \<Rightarrow> (string \<rightharpoonup> string) \<Rightarrow> (string \<rightharpoonup> string)" where
  "set_env before [] e = e"
| "set_env before ((k, v) # kvs) e = set_env before kvs (e(k \<mapsto> expand before v))"

text \<open>
  Two things are outside the Dockerfile and are parameters of the build: \<open>registry\<close>,
  which gives the configuration of a base image by name, and \<open>sh\<close>, the effect of a shell
  command on the files of the image.
\<close>

fun step :: "(string \<Rightarrow> image) \<Rightarrow> (string \<Rightarrow> string set \<Rightarrow> string set)
    \<Rightarrow> image \<Rightarrow> instruction \<Rightarrow> image" where
  "step registry sh img (FROM b) = registry b"
| "step registry sh img (LABEL k v) = img\<lparr>labels := (labels img)(k \<mapsto> v)\<rparr>"
| "step registry sh img (RUN c) = img\<lparr>files := sh c (files img)\<rparr>"
| "step registry sh img (ENV kvs) =
     img\<lparr>environment := set_env (environment img) kvs (environment img)\<rparr>"
| "step registry sh img (WORKDIR d) = img\<lparr>workdir := resolve (workdir img) d\<rparr>"
| "step registry sh img (COPY s d) =
     img\<lparr>files := insert (resolve (workdir img) d) (files img)\<rparr>"
| "step registry sh img (ENTRYPOINT a) = img\<lparr>entrypoint := a, cmd := []\<rparr>"

definition scratch :: image where
  "scratch = \<lparr>labels = Map.empty, environment = Map.empty, workdir = ''/'',
     entrypoint = [], cmd = [], files = {}\<rparr>"

definition build :: "(string \<Rightarrow> image) \<Rightarrow> (string \<Rightarrow> string set \<Rightarrow> string set)
    \<Rightarrow> instruction list \<Rightarrow> image" where
  "build registry sh instrs = foldl (step registry sh) scratch instrs"

subsection \<open>Starting a container\<close>

text \<open>
  A container is started from an image with the environment variables and the arguments
  given at start. It keeps the configuration of its image; its environment is the image's,
  overridden by the variables given at start; its process is the entry point followed by
  the arguments given (the image's default command when none is given).
\<close>

record container =
  config :: image
  cenv :: "string \<rightharpoonup> string"
  argv :: "string list"

definition run :: "image \<Rightarrow> (string \<rightharpoonup> string) \<Rightarrow> string list \<Rightarrow> container" where
  "run img e args =
     \<lparr>config = img,
      cenv = environment img ++ e,
      argv = entrypoint img @ (if args = [] then cmd img else args)\<rparr>"

section \<open>The deployment notebook\<close>

text \<open>
  The notebook \<^verbatim>\<open>multi-model-server-container.ipynb\<close> deploys the image twice: once
  with a single model and once as a multi-model endpoint. The account, the region, the
  bucket and the time stamp come from the session and are parameters here. A Python
  dictionary with string keys is an association list, in the order it is written.
\<close>

definition ecr_namespace :: string where
  "ecr_namespace = ''sagemaker-serving-containers/''"

definition prefix :: string where
  "prefix = ''multi-model-server-container''"

definition ecr_repository_name :: string where
  "ecr_repository_name = ecr_namespace @ prefix"

definition container_image_uri :: "string \<Rightarrow> string \<Rightarrow> string" where
  "container_image_uri account_id region =
     account_id @ ''.dkr.ecr.'' @ region @ ''.amazonaws.com/'' @ ecr_repository_name @ '':latest''"

definition s3_model_path :: "string \<Rightarrow> string" where
  "s3_model_path bucket = ''s3://'' @ bucket @ ''/'' @ prefix @ ''/model/model1.tar.gz''"

definition model_data_prefix :: "string \<Rightarrow> string" where
  "model_data_prefix bucket = ''s3://'' @ bucket @ ''/'' @ prefix @ ''/modeldata''"

record model =
  name :: string
  model_data :: string
  image_uri :: string
  env :: "(string \<times> string) list"

record multi_data_model =
  mdm_name :: string
  mdm_model_data_prefix :: string
  mdm_model :: model

text \<open>The model of the cell "Deploy a single model".\<close>

definition single_model :: "string \<Rightarrow> string \<Rightarrow> string \<Rightarrow> string \<Rightarrow> model" where
  "single_model account_id region bucket stamp =
     \<lparr>name = ''multi-model-server-model-'' @ stamp,
      model_data = s3_model_path bucket,
      image_uri = container_image_uri account_id region,
      env = [(''SAGEMAKER_PROGRAM'', ''predictor'')]\<rparr>"

text \<open>The models of the cell "Deploy multiple models".\<close>

definition multi_base_model :: "string \<Rightarrow> string \<Rightarrow> string \<Rightarrow> model" where
  "multi_base_model account_id region stamp =
     \<lparr>name = ''multi-model-server-multidatamodel-'' @ stamp,
      model_data = [],
      image_uri = container_image_uri account_id region,
      env = [(''SAGEMAKER_PROGRAM'', ''predictor'')]\<rparr>"

definition multi_model :: "string \<Rightarrow> string \<Rightarrow> string \<Rightarrow> string \<Rightarrow> multi_data_model" where
  "multi_model account_id region bucket stamp =
     \<lparr>mdm_name = ''multi-model-server-multidatamodel-'' @ stamp,
      mdm_model_data_prefix = model_data_prefix bucket,
      mdm_model = multi_base_model account_id region stamp\<rparr>"

text \<open>
  Deploying a model starts a container from the serving image with the model's \<open>env\<close>
  dictionary as its environment variables. The arguments the platform starts it with are
  a parameter.
\<close>

definition deploy :: "image \<Rightarrow> model \<Rightarrow> string list \<Rightarrow> container" where
  "deploy img m args = run img (map_of (env m)) args"

definition deploy_multi :: "image \<Rightarrow> multi_data_model \<Rightarrow> string list \<Rightarrow> container" where
  "deploy_multi img mm args = deploy img (mdm_model mm) args"

section \<open>What the server reads from its environment\<close>

text \<open>
  Modelled from the spec: the program the entry point starts (\<^verbatim>\<open>serve.py\<close> and the
  handler package \<^verbatim>\<open>multi_model_serving\<close> that the Dockerfile copies into the image) is
  not among the source files, so what it reads from the environment is taken from the
  specification: "Configuration via environment: a variable selecting the entry-point
  script name; a variable selecting the bind port." The names of the two variables are
  those the source files give: the notebook sets \<^verbatim>\<open>SAGEMAKER_PROGRAM\<close>, and the Dockerfile's
  label announces \<^verbatim>\<open>SAGEMAKER_BIND_TO_PORT\<close>. A variable that is not set selects nothing
  (\<open>None\<close>); the specification names no default.
\<close>

record serving_config =
  program :: "string option"
  bind_port :: "string option"

definition configure :: "(string \<rightharpoonup> string) \<Rightarrow> serving_config" where
  "configure e =
     \<lparr>program = e ''SAGEMAKER_PROGRAM'', bind_port = e ''SAGEMAKER_BIND_TO_PORT''\<rparr>"

section \<open>Properties\<close>

subsection \<open>The image of the repository\<close>

text \<open>
  The Dockerfile, instruction by instruction, on any base image and whatever the shell
  commands do to the files.
\<close>

lemma build_Dockerfile_labels:
  "labels (build registry sh Dockerfile) =
     (labels (registry ''ubuntu:16.04''))
       (''maintainer'' \<mapsto> ''Giuseppe A. Porcelli'',
        ''com.amazonaws.sagemaker.capabilities.multi-models'' \<mapsto> ''true'',
        ''com.amazonaws.sagemaker.capabilities.accept-bind-to-port'' \<mapsto> ''true'')"
  by (simp add: build_def Dockerfile_def)

lemma build_Dockerfile_entrypoint:
  "entrypoint (build registry sh Dockerfile) = [''python'', ''serve.py'']"
  by (simp add: build_def Dockerfile_def)

lemma build_Dockerfile_cmd: "cmd (build registry sh Dockerfile) = []"
  by (simp add: build_def Dockerfile_def)

lemma build_Dockerfile_workdir: "workdir (build registry sh Dockerfile) = ''/''"
  by (simp add: build_def Dockerfile_def)

lemma build_Dockerfile_serve_py: "''/serve.py'' \<in> files (build registry sh Dockerfile)"
  by (simp add: build_def Dockerfile_def)

subsection \<open>The environment of a container\<close>

lemma cenv_run_set: "cenv (run img (e(k \<mapsto> v)) args) k = Some v"
  by (simp add: run_def)

lemma cenv_run_other: "k' \<noteq> k \<Longrightarrow> cenv (run img (e(k \<mapsto> v)) args) k' = cenv (run img e args) k'"
  by (simp add: run_def map_add_def)

lemma cenv_deploy_single:
  "cenv (deploy img (single_model account_id region bucket stamp) args) ''SAGEMAKER_PROGRAM''
     = Some ''predictor''"
  by (simp add: deploy_def run_def single_model_def)

lemma cenv_deploy_multi:
  "cenv (deploy_multi img (multi_model account_id region bucket stamp) args) ''SAGEMAKER_PROGRAM''
     = Some ''predictor''"
  by (simp add: deploy_multi_def deploy_def run_def multi_model_def multi_base_model_def)

subsection \<open>Configuration and capabilities\<close>

text \<open>
  C9. The serving container is configured through its environment. One variable,
  \<^verbatim>\<open>SAGEMAKER_PROGRAM\<close>, selects the name of the user-supplied inference script: whatever
  value a container is started with is the script name the server uses, and the port is
  not affected by it. Another variable, \<^verbatim>\<open>SAGEMAKER_BIND_TO_PORT\<close>, selects the port the
  server binds to, and the script name is not affected by it. Both deployments of the
  notebook select the script \<open>predictor\<close> this way, and the image built from the
  Dockerfile announces by its label that it accepts the port variable.
\<close>

theorem container_configured_by_environment:
  "program (configure (cenv (run img (e(''SAGEMAKER_PROGRAM'' \<mapsto> s)) args))) = Some s
   \<and> bind_port (configure (cenv (run img (e(''SAGEMAKER_PROGRAM'' \<mapsto> s)) args)))
       = bind_port (configure (cenv (run img e args)))
   \<and> bind_port (configure (cenv (run img (e(''SAGEMAKER_BIND_TO_PORT'' \<mapsto> p)) args))) = Some p
   \<and> program (configure (cenv (run img (e(''SAGEMAKER_BIND_TO_PORT'' \<mapsto> p)) args)))
       = program (configure (cenv (run img e args)))
   \<and> program (configure (cenv (deploy (build registry sh Dockerfile)
         (single_model account_id region bucket stamp) args))) = Some ''predictor''
   \<and> program (configure (cenv (deploy_multi (build registry sh Dockerfile)
         (multi_model account_id region bucket stamp) args))) = Some ''predictor''
   \<and> labels (build registry sh Dockerfile)
         ''com.amazonaws.sagemaker.capabilities.accept-bind-to-port'' = Some ''true''"
  by (simp add: configure_def cenv_run_set cenv_run_other cenv_deploy_single cenv_deploy_multi
      build_Dockerfile_labels)

text \<open>
  C10. The image built from the Dockerfile, on any base image and whatever its shell
  commands do, carries the label \<^verbatim>\<open>com.amazonaws.sagemaker.capabilities.multi-models\<close>
  with value \<open>true\<close> and the label
  \<^verbatim>\<open>com.amazonaws.sagemaker.capabilities.accept-bind-to-port\<close> with value \<open>true\<close>, and its
  entry point is \<^verbatim>\<open>python serve.py\<close>. Every container started from the image, with any
  environment and any arguments, has this configuration and runs \<^verbatim>\<open>python serve.py\<close>
  followed by its arguments; \<^verbatim>\<open>serve.py\<close>, taken from the working directory, is the file
  the Dockerfile copied into the image.
\<close>

theorem image_declares_multi_model_serving:
  "labels (config (run (build registry sh Dockerfile) e args))
       ''com.amazonaws.sagemaker.capabilities.multi-models'' = Some ''true''
   \<and> labels (config (run (build registry sh Dockerfile) e args))
       ''com.amazonaws.sagemaker.capabilities.accept-bind-to-port'' = Some ''true''
   \<and> entrypoint (config (run (build registry sh Dockerfile) e args)) = [''python'', ''serve.py'']
   \<and> argv (run (build registry sh Dockerfile) e args) = ''python'' # ''serve.py'' # args
   \<and> resolve (workdir (build registry sh Dockerfile)) ''serve.py''
       \<in> files (build registry sh Dockerfile)"
  by (simp add: run_def build_Dockerfile_labels build_Dockerfile_entrypoint
      build_Dockerfile_cmd build_Dockerfile_workdir build_Dockerfile_serve_py)

end
